theory Spec2Isabelle
  imports Main
begin

section \<open>Python values handled by the JSON layer\<close>

text \<open>
  The module \<^verbatim>\<open>utils/json_utils.py\<close> stores trees of Python values in JSON files.
  Values of types the JSON engine cannot write are passed to a registry of handlers:
  serializers (reversible, written as a two-key envelope) and converters (one way).

  The value universe of the model: \<^verbatim>\<open>None\<close>, booleans, unbounded integers,
  strings (lists of 8-bit characters), lists, string-keyed dictionaries in insertion
  order, naive dates and datetimes, timedeltas, data frames, numpy integers and
  arrays, class objects, and instances of any other class. Floating point values,
  tuples, time zones and dictionaries with keys that are not strings are outside it.
\<close>

datatype np_int_kind = Int8 | UInt8 | Int32 | Int64 | UInt32 | Int16 | UInt16 | UInt64

datatype np_float_kind = Float128 | Float64 | Float32 | Float16

datatype stl_kind = STLVector | STLSet | STLMap

text \<open>The concrete runtime type of a value, as \<^verbatim>\<open>type(obj)\<close> gives it.\<close>

datatype pytype =
    T_NoneType | T_bool | T_int | T_str | T_list | T_dict | T_type
  | T_datetime | T_date | T_timedelta | T_DataFrame | T_ndarray
  | T_np_float np_float_kind | T_np_int np_int_kind | T_stl stl_kind
  | T_other string

datatype date = Date (d_year: nat) (d_month: nat) (d_day: nat)

datatype datetime =
  Datetime (year: nat) (month: nat) (day: nat)
           (hour: nat) (minute: nat) (second: nat) (microsecond: nat)

datatype timedelta = Timedelta (days: int) (seconds: int) (microseconds: int)

text \<open>A \<^verbatim>\<open>pandas.DataFrame\<close> is represented by the text its \<^verbatim>\<open>to_json()\<close> gives.\<close>

datatype frame = Frame string

datatype pyval =
    PNone
  | PBool bool
  | PInt int
  | PStr string
  | PList "pyval list"
  | PDict "(string \<times> pyval) list"
  | PDatetime datetime
  | PDate date
  | PTimedelta timedelta
  | PDataFrame frame
  | PNpInt np_int_kind int
  | PNdArray "pyval list"
  | PClass pytype
  | PObject string

fun type_of :: "pyval \<Rightarrow> pytype" where
  "type_of PNone = T_NoneType"
| "type_of (PBool _) = T_bool"
| "type_of (PInt _) = T_int"
| "type_of (PStr _) = T_str"
| "type_of (PList _) = T_list"
| "type_of (PDict _) = T_dict"
| "type_of (PDatetime _) = T_datetime"
| "type_of (PDate _) = T_date"
| "type_of (PTimedelta _) = T_timedelta"
| "type_of (PDataFrame _) = T_DataFrame"
| "type_of (PNpInt k _) = T_np_int k"
| "type_of (PNdArray _) = T_ndarray"
| "type_of (PClass _) = T_type"
| "type_of (PObject cls) = T_other cls"

text \<open>
  Exceptions. \<open>TypeError\<close> and \<open>JSONDeserializeError\<close> carry the exception they were
  raised \<^verbatim>\<open>from\<close> (\<^verbatim>\<open>__cause__\<close>). \<open>JSONDecodeError\<close> and \<open>UnicodeDecodeError\<close>
  are subclasses of \<open>ValueError\<close>; \<open>JSONDeserializeError\<close> is declared in the module as
  a subclass of both \<open>OSError\<close> and \<open>ValueError\<close>. \<open>OtherError\<close> is any exception class
  that is neither. \<open>Unmodelled\<close> marks a call whose result lies outside the value
  universe above.
\<close>

datatype error =
    KeyError pyval
  | TypeError "error option"
  | ValueError
  | JSONDecodeError
  | UnicodeDecodeError
  | OSError
  | AttributeError
  | OverflowError
  | NameError
  | JSONDeserializeError error
  | OtherError string
  | Unmodelled

text \<open>What \<^verbatim>\<open>except (OSError, ValueError)\<close> catches.\<close>

fun is_OSError_or_ValueError :: "error \<Rightarrow> bool" where
  "is_OSError_or_ValueError ValueError = True"
| "is_OSError_or_ValueError JSONDecodeError = True"
| "is_OSError_or_ValueError UnicodeDecodeError = True"
| "is_OSError_or_ValueError OSError = True"
| "is_OSError_or_ValueError (JSONDeserializeError _) = True"
| "is_OSError_or_ValueError _ = False"

subsection \<open>Dictionaries in insertion order\<close>

text \<open>
  \<^verbatim>\<open>d[k] = v\<close>: an existing key keeps its position and takes the new value, a new
  key goes to the end.
\<close>

fun dict_setitem :: "'k \<Rightarrow> 'v \<Rightarrow> ('k \<times> 'v) list \<Rightarrow> ('k \<times> 'v) list" where
  "dict_setitem k v [] = [(k, v)]"
| "dict_setitem k v ((k', v') # d) =
     (if k = k' then (k, v) # d else (k', v') # dict_setitem k v d)"

definition dict_get :: "('k \<times> 'v) list \<Rightarrow> 'k \<Rightarrow> 'v option" where
  "dict_get d k = map_of d k"

definition dict_contains :: "('k \<times> 'v) list \<Rightarrow> 'k \<Rightarrow> bool" where
  "dict_contains d k = (k \<in> set (map fst d))"

text \<open>\<^verbatim>\<open>dict(pairs)\<close> and \<^verbatim>\<open>d.update(other_dict)\<close>: item assignment, pair by pair.\<close>

definition dict_update :: "('k \<times> 'v) list \<Rightarrow> ('k \<times> 'v) list \<Rightarrow> ('k \<times> 'v) list" where
  "dict_update d new = foldl (\<lambda>acc (k, v). dict_setitem k v acc) d new"

definition dict_of_pairs :: "('k \<times> 'v) list \<Rightarrow> ('k \<times> 'v) list" where
  "dict_of_pairs pairs = dict_update [] pairs"

text \<open>\<^verbatim>\<open>d.pop(k)\<close>: the value and the dictionary without the key, or \<open>KeyError\<close>.\<close>

definition dict_pop :: "(string \<times> pyval) list \<Rightarrow> string \<Rightarrow> error + (pyval \<times> (string \<times> pyval) list)" where
  "dict_pop d k =
     (case map_of d k of
        None \<Rightarrow> Inl (KeyError (PStr k))
      | Some v \<Rightarrow> Inr (v, filter (\<lambda>(k', _). k' \<noteq> k) d))"

subsection \<open>Integers and strings\<close>

definition digit_char :: "nat \<Rightarrow> char" where
  "digit_char n = char_of (48 + n)"

text \<open>\<^verbatim>\<open>str(n)\<close> for an integer: decimal digits, a minus sign when negative.\<close>

function digits_of :: "nat \<Rightarrow> string" where
  "digits_of n = (if n < 10 then [digit_char n] else digits_of (n div 10) @ [digit_char (n mod 10)])"
  by pat_completeness auto
termination
  by (relation "measure id") auto

text \<open>An integer of more than 4300 digits is refused by both \<^verbatim>\<open>str\<close> and \<^verbatim>\<open>int\<close>.\<close>

definition int_too_long :: "int \<Rightarrow> bool" where
  "int_too_long i = (length (digits_of (nat \<bar>i\<bar>)) > 4300)"

definition str_int :: "int \<Rightarrow> error + string" where
  "str_int i =
     (if int_too_long i then Inl ValueError
      else if i < 0 then Inr (CHR ''-'' # digits_of (nat (- i)))
      else Inr (digits_of (nat i)))"

text \<open>
  \<^verbatim>\<open>int(s)\<close> for a string, base ten: white space around the number is dropped, one
  sign may lead, single underscores may separate digits, and more than 4300 digits
  are refused. Anything else is a \<open>ValueError\<close>.
\<close>

definition is_space :: "char \<Rightarrow> bool" where
  "is_space c = ((of_char c :: nat) \<in> {9, 10, 11, 12, 13, 28, 29, 30, 31, 32, 133, 160})"

definition is_digit :: "char \<Rightarrow> bool" where
  "is_digit c = (48 \<le> (of_char c :: nat) \<and> (of_char c :: nat) \<le> 57)"

definition strip :: "string \<Rightarrow> string" where
  "strip s = rev (dropWhile is_space (rev (dropWhile is_space s)))"

fun valid_body :: "string \<Rightarrow> bool" where
  "valid_body [] = False"
| "valid_body [c] = is_digit c"
| "valid_body (c # d # cs) =
     (is_digit c \<and> (if d = CHR ''_'' then valid_body cs else valid_body (d # cs)))"

definition digits_value :: "string \<Rightarrow> nat" where
  "digits_value ds = foldl (\<lambda>acc c. 10 * acc + (of_char c - 48)) 0 ds"

definition int_body :: "string \<Rightarrow> error + int" where
  "int_body body =
     (let ds = filter is_digit body in
      if valid_body body \<and> length ds \<le> 4300 then Inr (int (digits_value ds))
      else Inl ValueError)"

definition int_str :: "string \<Rightarrow> error + int" where
  "int_str s =
     (case strip s of
        c # rest \<Rightarrow>
          (if c = CHR ''-'' then
             (case int_body rest of Inl e \<Rightarrow> Inl e | Inr n \<Rightarrow> Inr (- n))
           else if c = CHR ''+'' then int_body rest
           else int_body (c # rest))
      | [] \<Rightarrow> Inl ValueError)"

text \<open>\<^verbatim>\<open>s.split(",")\<close>: the fields between the separators; never an empty list.\<close>

fun split_on :: "char \<Rightarrow> string \<Rightarrow> string list" where
  "split_on sep [] = [[]]"
| "split_on sep (c # cs) =
     (if c = sep then [] # split_on sep cs
      else (case split_on sep cs of
              f # fs \<Rightarrow> (c # f) # fs
            | [] \<Rightarrow> [[c]]))"

text \<open>Running a fallible function over a list, left to right, stopping at the first error.\<close>

fun map_result :: "('a \<Rightarrow> error + 'b) \<Rightarrow> 'a list \<Rightarrow> error + 'b list" where
  "map_result f [] = Inr []"
| "map_result f (x # xs) =
     (case f x of
        Inl e \<Rightarrow> Inl e
      | Inr y \<Rightarrow> (case map_result f xs of Inl e \<Rightarrow> Inl e | Inr ys \<Rightarrow> Inr (y # ys)))"

subsection \<open>Dates, datetimes and timedeltas\<close>

text \<open>\<^verbatim>\<open>"%0wd" % n\<close>: at least \<open>w\<close> digits, padded with zeros on the left.\<close>

definition zero_pad :: "nat \<Rightarrow> nat \<Rightarrow> string" where
  "zero_pad w n = replicate (w - length (digits_of n)) (CHR ''0'') @ digits_of n"

definition isoformat_date :: "date \<Rightarrow> string" where
  "isoformat_date d =
     zero_pad 4 (d_year d) @ ''-'' @ zero_pad 2 (d_month d) @ ''-'' @ zero_pad 2 (d_day d)"

definition isoformat_datetime :: "datetime \<Rightarrow> string" where
  "isoformat_datetime t =
     zero_pad 4 (year t) @ ''-'' @ zero_pad 2 (month t) @ ''-'' @ zero_pad 2 (day t)
     @ ''T'' @ zero_pad 2 (hour t) @ '':'' @ zero_pad 2 (minute t) @ '':'' @ zero_pad 2 (second t)
     @ (if microsecond t = 0 then [] else ''.'' @ zero_pad 6 (microsecond t))"

text \<open>
  \<^verbatim>\<open>timedelta(*args)\<close> on integers. The positional parameters are days, seconds,
  microseconds, milliseconds, minutes, hours, weeks, each 0 when it is not given; an
  eighth argument is a \<open>TypeError\<close>. The result is normalised to
  \<open>0 \<le> seconds < 86400\<close> and \<open>0 \<le> microseconds < 1000000\<close>, and a day count beyond
  999999999 in magnitude is an \<open>OverflowError\<close>.
\<close>

definition arg_or_0 :: "int list \<Rightarrow> nat \<Rightarrow> int" where
  "arg_or_0 args i = (if i < length args then args ! i else 0)"

definition timedelta_new :: "int list \<Rightarrow> error + timedelta" where
  "timedelta_new args =
     (if length args > 7 then Inl (TypeError None)
      else
        let d = arg_or_0 args 0; s = arg_or_0 args 1; us = arg_or_0 args 2;
            ms = arg_or_0 args 3; mi = arg_or_0 args 4; h = arg_or_0 args 5;
            w = arg_or_0 args 6;
            total = us + 1000 * ms
                    + 1000000 * (s + 60 * mi + 3600 * h + 86400 * (d + 7 * w));
            nd = total div 86400000000;
            r = total mod 86400000000
        in if \<bar>nd\<bar> > 999999999 then Inl OverflowError
           else Inr (Timedelta nd (r div 1000000) (r mod 1000000)))"

text \<open>The values of the type: what \<^verbatim>\<open>timedelta\<close> objects can hold.\<close>

definition timedelta_valid :: "timedelta \<Rightarrow> bool" where
  "timedelta_valid td =
     (\<bar>days td\<bar> \<le> 999999999 \<and> 0 \<le> seconds td \<and> seconds td < 86400
      \<and> 0 \<le> microseconds td \<and> microseconds td < 1000000)"

subsection \<open>External libraries\<close>

text \<open>
  \<^verbatim>\<open>dateutil.parser.parse\<close> and \<^verbatim>\<open>pandas.read_json\<close> are not code of this
  repository. They are parameters of the model: any function from the argument to a
  \<^verbatim>\<open>datetime\<close> (a data frame) or an exception.
\<close>

record pylib =
  dateutil_parse :: "pyval \<Rightarrow> error + datetime"
  pandas_read_json :: "pyval \<Rightarrow> error + frame"

section \<open>Handlers\<close>

datatype serializer = DatetimeJSON | TimedeltaJSON | PdDataframe

datatype converter = NDArrayJSON | NumpyFloat | NumpyInt | UprootContainer

fun serializer_types :: "serializer \<Rightarrow> pytype list" where
  "serializer_types DatetimeJSON = [T_datetime, T_date]"
| "serializer_types TimedeltaJSON = [T_timedelta]"
| "serializer_types PdDataframe = [T_DataFrame]"

fun converter_types :: "converter \<Rightarrow> pytype list" where
  "converter_types NDArrayJSON = [T_ndarray]"
| "converter_types NumpyFloat =
     [T_np_float Float128, T_np_float Float64, T_np_float Float32, T_np_float Float16]"
| "converter_types NumpyInt =
     [T_np_int Int8, T_np_int UInt8, T_np_int Int32, T_np_int Int64,
      T_np_int UInt32, T_np_int Int16, T_np_int UInt16, T_np_int UInt64]"
| "converter_types UprootContainer = [T_stl STLVector, T_stl STLSet, T_stl STLMap]"

text \<open>
  \<^verbatim>\<open>serialize\<close>. A handler is only called by \<open>json_serial\<close>, on a value of a type it
  claims; a value of another type has no such method or attribute.
\<close>

fun serialize :: "serializer \<Rightarrow> pyval \<Rightarrow> error + string" where
  "serialize DatetimeJSON (PDatetime t) = Inr (isoformat_datetime t)"
| "serialize DatetimeJSON (PDate d) = Inr (isoformat_date d)"
| "serialize TimedeltaJSON (PTimedelta td) =
     (case str_int (days td) of
        Inl e \<Rightarrow> Inl e
      | Inr a \<Rightarrow>
          (case str_int (seconds td) of
             Inl e \<Rightarrow> Inl e
           | Inr b \<Rightarrow>
               (case str_int (microseconds td) of
                  Inl e \<Rightarrow> Inl e
                | Inr c \<Rightarrow> Inr (a @ '','' @ b @ '','' @ c))))"
| "serialize PdDataframe (PDataFrame (Frame text)) = Inr text"
| "serialize _ _ = Inl AttributeError"

text \<open>
  \<^verbatim>\<open>deserialize\<close>. The payload is whatever the document holds under \<^verbatim>\<open>"repr"\<close>;
  only a string has \<^verbatim>\<open>split\<close>.
\<close>

fun deserialize :: "pylib \<Rightarrow> serializer \<Rightarrow> pyval \<Rightarrow> error + pyval" where
  "deserialize lib DatetimeJSON r_value =
     (case dateutil_parse lib r_value of Inl e \<Rightarrow> Inl e | Inr t \<Rightarrow> Inr (PDatetime t))"
| "deserialize lib TimedeltaJSON (PStr r_value) =
     (case map_result int_str (split_on (CHR '','') r_value) of
        Inl e \<Rightarrow> Inl e
      | Inr args \<Rightarrow>
          (case timedelta_new args of Inl e \<Rightarrow> Inl e | Inr td \<Rightarrow> Inr (PTimedelta td)))"
| "deserialize lib TimedeltaJSON _ = Inl AttributeError"
| "deserialize lib PdDataframe r_value =
     (case pandas_read_json lib r_value of Inl e \<Rightarrow> Inl e | Inr f \<Rightarrow> Inr (PDataFrame f))"

text \<open>
  \<^verbatim>\<open>convert\<close>. Floats and uproot containers are outside the value universe.
\<close>

fun convert :: "converter \<Rightarrow> pyval \<Rightarrow> error + pyval" where
  "convert NDArrayJSON (PNdArray xs) = Inr (PList xs)"
| "convert NumpyInt (PNpInt k i) = Inr (PInt i)"
| "convert _ _ = Inl Unmodelled"

section \<open>The registry\<close>

definition names_to_serializers :: "(string \<times> serializer) list" where
  "names_to_serializers =
     [(''datetime'', DatetimeJSON), (''timedelta'', TimedeltaJSON),
      (''pd_dataframe'', PdDataframe)]"

definition names_to_converters :: "(string \<times> converter) list" where
  "names_to_converters =
     [(''ndarray'', NDArrayJSON), (''np_float'', NumpyFloat), (''np_int'', NumpyInt),
      (''uproot_stlc'', UprootContainer)]"

text \<open>
  \<^verbatim>\<open>JSONMixin.__init__\<close>: for the converters, then the serializers, for every handler
  and every type it claims, \<^verbatim>\<open>types_to_names[d_type] = name\<close>.
\<close>

definition register :: "(string \<times> pytype list) list \<Rightarrow> (pytype \<times> string) list \<Rightarrow> (pytype \<times> string) list" where
  "register handlers table =
     foldl (\<lambda>acc (name, types). foldl (\<lambda>acc' d_type. dict_setitem d_type name acc') acc types)
       table handlers"

definition types_to_names :: "(pytype \<times> string) list" where
  "types_to_names =
     register (map (\<lambda>(name, h). (name, serializer_types h)) names_to_serializers)
       (register (map (\<lambda>(name, h). (name, converter_types h)) names_to_converters) [])"

section \<open>The encode and decode hooks\<close>

text \<open>
  \<^verbatim>\<open>JSONMixin.json_serial\<close>, the \<^verbatim>\<open>default\<close> hook of the encoder. The lookup
  \<^verbatim>\<open>self.types_to_names[type(obj)]\<close> raises \<open>KeyError\<close> for a type without a handler.
  The last branch evaluates the unbound name \<^verbatim>\<open>e\<close>.
\<close>

definition json_serial :: "pyval \<Rightarrow> error + pyval" where
  "json_serial obj =
     (case dict_get types_to_names (type_of obj) of
        None \<Rightarrow> Inl (KeyError (PClass (type_of obj)))
      | Some con_name \<Rightarrow>
          (case dict_get names_to_converters con_name of
             Some c \<Rightarrow> convert c obj
           | None \<Rightarrow>
               (case dict_get names_to_serializers con_name of
                  Some s \<Rightarrow>
                    (case serialize s obj of
                       Inl e \<Rightarrow> Inl e
                     | Inr serial_str \<Rightarrow>
                         Inr (PDict [(''__type__'', PStr con_name), (''repr'', PStr serial_str)]))
                | None \<Rightarrow> Inl NameError)))"

text \<open>Lists, dictionaries, arrays and data frames cannot be dictionary keys.\<close>

fun hashable :: "pyval \<Rightarrow> bool" where
  "hashable (PList _) = False"
| "hashable (PDict _) = False"
| "hashable (PNdArray _) = False"
| "hashable (PDataFrame _) = False"
| "hashable _ = True"

text \<open>\<^verbatim>\<open>self.names_to_serializers[recover_type]\<close>; the keys of the table are strings.\<close>

definition lookup_serializer :: "pyval \<Rightarrow> error + serializer" where
  "lookup_serializer recover_type =
     (if \<not> hashable recover_type then Inl (TypeError None)
      else
        (case recover_type of
           PStr name \<Rightarrow>
             (case dict_get names_to_serializers name of
                None \<Rightarrow> Inl (KeyError recover_type)
              | Some s \<Rightarrow> Inr s)
         | _ \<Rightarrow> Inl (KeyError recover_type)))"

text \<open>\<^verbatim>\<open>except KeyError as e: raise TypeError(...) from e\<close>; any other exception passes.\<close>

fun except_KeyError :: "error \<Rightarrow> error" where
  "except_KeyError (KeyError k) = TypeError (Some (KeyError k))"
| "except_KeyError e = e"

text \<open>
  The body of the loop of \<^verbatim>\<open>json_deserial\<close> for one value of the mapping: the new
  value of the key (the old one when the \<^verbatim>\<open>if\<close> does not fire).
\<close>

definition recover_value :: "pylib \<Rightarrow> pyval \<Rightarrow> error + pyval" where
  "recover_value lib recovered_value =
     (case recovered_value of
        PDict d \<Rightarrow>
          (if dict_contains d ''__type__'' then
             (case dict_pop d ''__type__'' of
                Inl e \<Rightarrow> Inl e
              | Inr (recover_type, d1) \<Rightarrow>
                  (case dict_pop d1 ''repr'' of
                     Inl e \<Rightarrow> Inl e
                   | Inr (recover_repr, d2) \<Rightarrow>
                       (case lookup_serializer recover_type of
                          Inl e \<Rightarrow> Inl (except_KeyError e)
                        | Inr serializer \<Rightarrow>
                            (case deserialize lib serializer recover_repr of
                               Inl e \<Rightarrow> Inl (except_KeyError e)
                             | Inr v \<Rightarrow> Inr v))))
           else Inr recovered_value)
      | _ \<Rightarrow> Inr recovered_value)"

text \<open>
  \<^verbatim>\<open>JSONMixin.json_deserial\<close>, the \<^verbatim>\<open>object_hook\<close> of the decoder: it looks at the
  values of the mapping it is given, in order, and returns the mapping.
\<close>

definition json_deserial :: "pylib \<Rightarrow> pyval \<Rightarrow> error + pyval" where
  "json_deserial lib obj =
     (case obj of
        PDict items \<Rightarrow>
          (case map_result
                  (\<lambda>(recovered_key, recovered_value).
                     case recover_value lib recovered_value of
                       Inl e \<Rightarrow> Inl e
                     | Inr v \<Rightarrow> Inr (recovered_key, v))
                  items of
             Inl e \<Rightarrow> Inl e
           | Inr items' \<Rightarrow> Inr (PDict items'))
      | _ \<Rightarrow> Inr obj)"

section \<open>The JSON engine\<close>

text \<open>
  A JSON text is modelled by its syntax tree: an object is the list of its
  key-value pairs in the order of the text (a key may repeat). \<^verbatim>\<open>json.loads\<close> builds
  the values bottom-up, left to right, makes a dictionary of the pairs of each
  object (the last value of a repeated key stands) and calls the object hook on it;
  the first exception ends the parse.
\<close>

datatype json =
    JNull
  | JBool bool
  | JInt int
  | JStr string
  | JArr "json list"
  | JObj "(string \<times> json) list"

fun loads_value :: "pylib \<Rightarrow> json \<Rightarrow> error + pyval"
and loads_list :: "pylib \<Rightarrow> json list \<Rightarrow> error + pyval list"
and loads_pairs :: "pylib \<Rightarrow> (string \<times> json) list \<Rightarrow> error + (string \<times> pyval) list"
where
  "loads_value lib JNull = Inr PNone"
| "loads_value lib (JBool b) = Inr (PBool b)"
| "loads_value lib (JInt i) = (if int_too_long i then Inl ValueError else Inr (PInt i))"
| "loads_value lib (JStr s) = Inr (PStr s)"
| "loads_value lib (JArr xs) =
     (case loads_list lib xs of Inl e \<Rightarrow> Inl e | Inr vs \<Rightarrow> Inr (PList vs))"
| "loads_value lib (JObj pairs) =
     (case loads_pairs lib pairs of
        Inl e \<Rightarrow> Inl e
      | Inr items \<Rightarrow> json_deserial lib (PDict (dict_of_pairs items)))"
| "loads_list lib [] = Inr []"
| "loads_list lib (x # xs) =
     (case loads_value lib x of
        Inl e \<Rightarrow> Inl e
      | Inr v \<Rightarrow> (case loads_list lib xs of Inl e \<Rightarrow> Inl e | Inr vs \<Rightarrow> Inr (v # vs)))"
| "loads_pairs lib [] = Inr []"
| "loads_pairs lib ((k, x) # ps) =
     (case loads_value lib x of
        Inl e \<Rightarrow> Inl e
      | Inr v \<Rightarrow> (case loads_pairs lib ps of Inl e \<Rightarrow> Inl e | Inr items \<Rightarrow> Inr ((k, v) # items)))"

text \<open>
  A text is empty, or well formed (its syntax tree), or ill formed: then it holds
  the values that are complete before the place of the syntax error, which the
  parser builds (calling the hook) before it raises \<open>JSONDecodeError\<close>.
\<close>

datatype json_text = Empty | Wellformed json | Illformed "json list"

text \<open>\<^verbatim>\<open>JSONMixin.from_json_str\<close>, called without keyword arguments.\<close>

definition from_json_str :: "pylib \<Rightarrow> json_text \<Rightarrow> error + pyval" where
  "from_json_str lib in_str =
     (case in_str of
        Empty \<Rightarrow> Inl ValueError
      | Wellformed j \<Rightarrow> loads_value lib j
      | Illformed complete \<Rightarrow>
          (case loads_list lib complete of Inl e \<Rightarrow> Inl e | Inr _ \<Rightarrow> Inl JSONDecodeError))"

text \<open>
  \<^verbatim>\<open>json.dump\<close> walks the tree in order and writes as it goes. A value the engine
  cannot write itself goes to the \<^verbatim>\<open>default\<close> hook, and what the hook returns is
  encoded in its place. The walk ends at the first exception; what it has written by
  then is an ill-formed text, given here by the values complete so far.

  The measure below bounds the walk: what \<open>json_serial\<close> returns is lighter than what
  it was given.
\<close>

fun weight :: "pyval \<Rightarrow> nat"
and weight_list :: "pyval list \<Rightarrow> nat"
and weight_items :: "(string \<times> pyval) list \<Rightarrow> nat"
where
  "weight (PList xs) = Suc (weight_list xs)"
| "weight (PDict items) = Suc (weight_items items)"
| "weight (PNdArray xs) = Suc (Suc (weight_list xs))"
| "weight (PDatetime _) = 6"
| "weight (PDate _) = 6"
| "weight (PTimedelta _) = 6"
| "weight (PDataFrame _) = 6"
| "weight (PNpInt _ _) = 2"
| "weight _ = 1"
| "weight_list [] = 0"
| "weight_list (x # xs) = Suc (weight x + weight_list xs)"
| "weight_items [] = 0"
| "weight_items ((k, v) # items) = Suc (weight v + weight_items items)"

text \<open>The registry as \<^verbatim>\<open>__init__\<close> builds it, and the hook on each kind of value.\<close>

lemma types_to_names_eq:
  "types_to_names =
    [(T_ndarray, ''ndarray''),
     (T_np_float Float128, ''np_float''), (T_np_float Float64, ''np_float''),
     (T_np_float Float32, ''np_float''), (T_np_float Float16, ''np_float''),
     (T_np_int Int8, ''np_int''), (T_np_int UInt8, ''np_int''), (T_np_int Int32, ''np_int''),
     (T_np_int Int64, ''np_int''), (T_np_int UInt32, ''np_int''), (T_np_int Int16, ''np_int''),
     (T_np_int UInt16, ''np_int''), (T_np_int UInt64, ''np_int''),
     (T_stl STLVector, ''uproot_stlc''), (T_stl STLSet, ''uproot_stlc''),
     (T_stl STLMap, ''uproot_stlc''),
     (T_datetime, ''datetime''), (T_date, ''datetime''), (T_timedelta, ''timedelta''),
     (T_DataFrame, ''pd_dataframe'')]"
  by (simp add: types_to_names_def register_def names_to_serializers_def
      names_to_converters_def)

lemma json_serial_PNpInt: "json_serial (PNpInt k i) = Inr (PInt i)"
  by (cases k) (simp_all add: json_serial_def types_to_names_eq dict_get_def names_to_converters_def)

lemma json_serial_PNdArray: "json_serial (PNdArray xs) = Inr (PList xs)"
  by (simp add: json_serial_def types_to_names_eq dict_get_def names_to_converters_def)

lemma json_serial_PDatetime:
  "json_serial (PDatetime t) =
     Inr (PDict [(''__type__'', PStr ''datetime''), (''repr'', PStr (isoformat_datetime t))])"
  by (simp add: json_serial_def types_to_names_eq dict_get_def names_to_converters_def
      names_to_serializers_def)

lemma json_serial_PDate:
  "json_serial (PDate d) =
     Inr (PDict [(''__type__'', PStr ''datetime''), (''repr'', PStr (isoformat_date d))])"
  by (simp add: json_serial_def types_to_names_eq dict_get_def names_to_converters_def
      names_to_serializers_def)

lemma json_serial_PTimedelta:
  "json_serial (PTimedelta td) =
     (case serialize TimedeltaJSON (PTimedelta td) of
        Inl e \<Rightarrow> Inl e
      | Inr r \<Rightarrow> Inr (PDict [(''__type__'', PStr ''timedelta''), (''repr'', PStr r)]))"
  by (simp add: json_serial_def types_to_names_eq dict_get_def names_to_converters_def
      names_to_serializers_def)

lemma json_serial_PDataFrame:
  "json_serial (PDataFrame (Frame t)) =
     Inr (PDict [(''__type__'', PStr ''pd_dataframe''), (''repr'', PStr t)])"
  by (simp add: json_serial_def types_to_names_eq dict_get_def names_to_converters_def
      names_to_serializers_def)

lemma json_serial_PObject: "json_serial (PObject c) = Inl (KeyError (PClass (T_other c)))"
  by (simp add: json_serial_def types_to_names_eq dict_get_def)

lemma json_serial_PClass: "json_serial (PClass t) = Inl (KeyError (PClass T_type))"
  by (simp add: json_serial_def types_to_names_eq dict_get_def)

lemmas json_serial_simps =
  json_serial_PNpInt json_serial_PNdArray json_serial_PDatetime json_serial_PDate
  json_serial_PTimedelta json_serial_PDataFrame json_serial_PObject json_serial_PClass

lemma json_serial_native:
  "json_serial PNone = Inl (KeyError (PClass T_NoneType))"
  "json_serial (PBool b) = Inl (KeyError (PClass T_bool))"
  "json_serial (PInt i) = Inl (KeyError (PClass T_int))"
  "json_serial (PStr s) = Inl (KeyError (PClass T_str))"
  "json_serial (PList xs) = Inl (KeyError (PClass T_list))"
  "json_serial (PDict d) = Inl (KeyError (PClass T_dict))"
  by (simp_all add: json_serial_def types_to_names_eq dict_get_def)

lemma json_serial_lighter:
  assumes "json_serial v = Inr v'"
  shows "weight v' < weight v"
proof (cases v)
  case (PDataFrame f)
  then show ?thesis using assms by (cases f) (auto simp: json_serial_simps)
qed (use assms in \<open>auto simp: json_serial_simps json_serial_native split: sum.splits\<close>)


function (sequential) dumps_value :: "pyval \<Rightarrow> error \<times> json list + json"
and dumps_list :: "pyval list \<Rightarrow> error \<times> json list + json list"
and dumps_items :: "(string \<times> pyval) list \<Rightarrow> error \<times> json list + (string \<times> json) list"
where
  "dumps_value PNone = Inr JNull"
| "dumps_value (PBool b) = Inr (JBool b)"
| "dumps_value (PInt i) = (if int_too_long i then Inl (ValueError, []) else Inr (JInt i))"
| "dumps_value (PStr s) = Inr (JStr s)"
| "dumps_value (PList xs) =
     (case dumps_list xs of Inl f \<Rightarrow> Inl f | Inr js \<Rightarrow> Inr (JArr js))"
| "dumps_value (PDict items) =
     (case dumps_items items of Inl f \<Rightarrow> Inl f | Inr ps \<Rightarrow> Inr (JObj ps))"
| "dumps_value obj =
     (case json_serial obj of Inl e \<Rightarrow> Inl (e, []) | Inr obj' \<Rightarrow> dumps_value obj')"
| "dumps_list [] = Inr []"
| "dumps_list (x # xs) =
     (case dumps_value x of
        Inl f \<Rightarrow> Inl f
      | Inr j \<Rightarrow>
          (case dumps_list xs of
             Inl (e, complete) \<Rightarrow> Inl (e, j # complete)
           | Inr js \<Rightarrow> Inr (j # js)))"
| "dumps_items [] = Inr []"
| "dumps_items ((k, v) # items) =
     (case dumps_value v of
        Inl f \<Rightarrow> Inl f
      | Inr j \<Rightarrow>
          (case dumps_items items of
             Inl (e, complete) \<Rightarrow> Inl (e, j # complete)
           | Inr ps \<Rightarrow> Inr ((k, j) # ps)))"
  by pat_completeness auto
termination
  by (relation "measure (\<lambda>a. case a of Inl v \<Rightarrow> weight v
                                     | Inr (Inl xs) \<Rightarrow> weight_list xs
                                     | Inr (Inr items) \<Rightarrow> weight_items items)")
     (auto dest: json_serial_lighter)


text \<open>
  \<^verbatim>\<open>JSONMixin.to_json_str\<close>, called without keyword arguments: the text, or the
  exception of the walk.
\<close>

definition to_json_str :: "pyval \<Rightarrow> error + json_text" where
  "to_json_str in_obj =
     (case dumps_value in_obj of Inl (e, _) \<Rightarrow> Inl e | Inr j \<Rightarrow> Inr (Wellformed j))"

section \<open>Files\<close>

text \<open>
  A path names no file, or a file that cannot be opened (\<open>OSError\<close>), or one whose
  bytes are not text (\<open>UnicodeDecodeError\<close> on reading), or a file holding a text.
  Directories are not modelled: \<^verbatim>\<open>parent.mkdir(parents=True, exist_ok=True)\<close> changes
  no file.
\<close>

datatype fs_entry = Unreadable | Undecodable | File json_text

type_synonym filesystem = "string \<Rightarrow> fs_entry option"

text \<open>\<^verbatim>\<open>Path.read_text\<close> of an existing file.\<close>

fun read_text :: "fs_entry \<Rightarrow> error + json_text" where
  "read_text Unreadable = Inl OSError"
| "read_text Undecodable = Inl UnicodeDecodeError"
| "read_text (File t) = Inr t"

text \<open>
  \<^verbatim>\<open>JSONMixin.load_json_file\<close>. A missing file is the empty mapping; an \<open>OSError\<close> or
  \<open>ValueError\<close> of reading or parsing is raised again as \<open>JSONDeserializeError\<close> from
  it; any other exception passes as it is.
\<close>

definition load_json_file :: "pylib \<Rightarrow> filesystem \<Rightarrow> string \<Rightarrow> error + pyval" where
  "load_json_file lib fs in_filepath =
     (case fs in_filepath of
        None \<Rightarrow> Inr (PDict [])
      | Some f \<Rightarrow>
          (case (case read_text f of Inl e \<Rightarrow> Inl e | Inr t \<Rightarrow> from_json_str lib t) of
             Inl err \<Rightarrow>
               (if is_OSError_or_ValueError err then Inl (JSONDeserializeError err)
                else Inl err)
           | Inr v \<Rightarrow> Inr v))"

text \<open>
  \<^verbatim>\<open>JSONMixin.dump_to_json_file\<close>. \<^verbatim>\<open>in_file.open("w")\<close> empties the file before
  \<^verbatim>\<open>json.dump\<close> starts, and \<^verbatim>\<open>json.dump\<close> writes while it walks the tree: when
  the walk raises, the file holds the part written so far. The result is the
  exception raised, if any, and the files afterwards.
\<close>

definition dump_to_json_file :: "filesystem \<Rightarrow> pyval \<Rightarrow> string \<Rightarrow> error option \<times> filesystem" where
  "dump_to_json_file fs in_obj in_file =
     (case fs in_file of
        Some Unreadable \<Rightarrow> (Some OSError, fs)
      | _ \<Rightarrow>
          (case dumps_value in_obj of
             Inl (e, complete) \<Rightarrow> (Some e, fs(in_file \<mapsto> File (Illformed complete)))
           | Inr j \<Rightarrow> (None, fs(in_file \<mapsto> File (Wellformed j)))))"

text \<open>
  \<^verbatim>\<open>file_data.update(in_data)\<close>. Only a dictionary has \<^verbatim>\<open>update\<close>. Its argument is
  a mapping, or an iterable of key-value pairs: each element must itself be
  iterable (\<open>TypeError\<close> otherwise) and have exactly two items (\<open>ValueError\<close>
  otherwise); iterating a string gives its characters, iterating a dictionary its
  keys. A pair whose key is not a string leaves the string-keyed model.
\<close>

definition update_pair :: "pyval \<Rightarrow> error + string \<times> pyval" where
  "update_pair element =
     (case element of
        PStr s \<Rightarrow> (case s of [a, b] \<Rightarrow> Inr ([a], PStr [b]) | _ \<Rightarrow> Inl ValueError)
      | PList ys \<Rightarrow>
          (case ys of
             [k, v] \<Rightarrow>
               (case k of
                  PStr key \<Rightarrow> Inr (key, v)
                | _ \<Rightarrow> (if hashable k then Inl Unmodelled else Inl (TypeError None)))
           | _ \<Rightarrow> Inl ValueError)
      | PDict d \<Rightarrow> (case d of [(a, _), (b, _)] \<Rightarrow> Inr (a, PStr b) | _ \<Rightarrow> Inl ValueError)
      | PNdArray _ \<Rightarrow> Inl Unmodelled
      | PDataFrame _ \<Rightarrow> Inl Unmodelled
      | PObject _ \<Rightarrow> Inl Unmodelled
      | _ \<Rightarrow> Inl (TypeError None))"

definition dict_update_py :: "pyval \<Rightarrow> pyval \<Rightarrow> error + pyval" where
  "dict_update_py file_data in_data =
     (case file_data of
        PDict d \<Rightarrow>
          (case in_data of
             PDict new \<Rightarrow> Inr (PDict (dict_update d new))
           | PList xs \<Rightarrow>
               (case map_result update_pair xs of
                  Inl e \<Rightarrow> Inl e
                | Inr pairs \<Rightarrow> Inr (PDict (dict_update d pairs)))
           | PStr s \<Rightarrow>
               (case map_result update_pair (map (\<lambda>c. PStr [c]) s) of
                  Inl e \<Rightarrow> Inl e
                | Inr pairs \<Rightarrow> Inr (PDict (dict_update d pairs)))
           | PNdArray _ \<Rightarrow> Inl Unmodelled
           | PDataFrame _ \<Rightarrow> Inl Unmodelled
           | PObject _ \<Rightarrow> Inl Unmodelled
           | _ \<Rightarrow> Inl (TypeError None))
      | _ \<Rightarrow> Inl AttributeError)"

text \<open>
  \<^verbatim>\<open>JSONMixin.update_json_file\<close>, called without keyword arguments: load, update,
  dump. An exception of the first two steps leaves the files as they are.
\<close>

definition update_json_file :: "pylib \<Rightarrow> filesystem \<Rightarrow> string \<Rightarrow> pyval \<Rightarrow> error option \<times> filesystem" where
  "update_json_file lib fs in_filepath in_data =
     (case load_json_file lib fs in_filepath of
        Inl e \<Rightarrow> (Some e, fs)
      | Inr file_data \<Rightarrow>
          (case dict_update_py file_data in_data of
             Inl e \<Rightarrow> (Some e, fs)
           | Inr merged \<Rightarrow> dump_to_json_file fs merged in_filepath))"

section \<open>Saving with an optional sort\<close>

text \<open>
  \<^verbatim>\<open>sorted(xs, key=sort_fn)\<close>. The keys of all elements are computed first, in
  order. The model covers key functions that return integers (booleans count as
  integers) or strings: keys of one kind are put in ascending order, elements
  with equal keys staying in their order (the sort is stable); keys of both kinds
  cannot be compared, a \<open>TypeError\<close> as soon as there are two elements or more.
\<close>

datatype sortkey = SKInt int | SKStr string

fun str_lt :: "string \<Rightarrow> string \<Rightarrow> bool" where
  "str_lt [] [] = False"
| "str_lt [] (b # bs) = True"
| "str_lt (a # as) [] = False"
| "str_lt (a # as) (b # bs) =
     (if (of_char a :: nat) < of_char b then True
      else if (of_char b :: nat) < of_char a then False
      else str_lt as bs)"

fun key_lt :: "sortkey \<Rightarrow> sortkey \<Rightarrow> error + bool" where
  "key_lt (SKInt a) (SKInt b) = Inr (a < b)"
| "key_lt (SKStr a) (SKStr b) = Inr (str_lt a b)"
| "key_lt _ _ = Inl (TypeError None)"

fun is_SKInt :: "sortkey \<Rightarrow> bool" where
  "is_SKInt (SKInt _) = True"
| "is_SKInt (SKStr _) = False"

fun is_SKStr :: "sortkey \<Rightarrow> bool" where
  "is_SKStr (SKStr _) = True"
| "is_SKStr (SKInt _) = False"

definition key_less :: "sortkey \<Rightarrow> sortkey \<Rightarrow> bool" where
  "key_less a b = (case key_lt a b of Inr r \<Rightarrow> r | Inl _ \<Rightarrow> False)"

text \<open>Insertion behind every element that is not greater: a stable insertion sort.\<close>

fun insert_sorted :: "sortkey \<times> 'a \<Rightarrow> (sortkey \<times> 'a) list \<Rightarrow> (sortkey \<times> 'a) list" where
  "insert_sorted x [] = [x]"
| "insert_sorted x (y # ys) =
     (if key_less (fst x) (fst y) then x # y # ys else y # insert_sorted x ys)"

definition sort_by_key :: "(sortkey \<times> 'a) list \<Rightarrow> (sortkey \<times> 'a) list" where
  "sort_by_key kxs = foldl (\<lambda>acc x. insert_sorted x acc) [] kxs"

definition sorted_py :: "(pyval \<Rightarrow> error + sortkey) \<Rightarrow> pyval list \<Rightarrow> error + pyval list" where
  "sorted_py sort_fn xs =
     (case map_result sort_fn xs of
        Inl e \<Rightarrow> Inl e
      | Inr keys \<Rightarrow>
          (if length xs \<le> 1 then Inr xs
           else if list_all is_SKInt keys \<or> list_all is_SKStr keys
             then Inr (map snd (sort_by_key (zip keys xs)))
           else Inl (TypeError None)))"

text \<open>
  The \<^verbatim>\<open>sort_fn\<close> argument of \<^verbatim>\<open>save_data\<close>: \<^verbatim>\<open>None\<close>, an object that is not
  callable, or a key function.
\<close>

datatype sort_arg = NoSort | NotCallable | SortFn "pyval \<Rightarrow> error + sortkey"

text \<open>The identity as a key function, on the values the model can compare.\<close>

fun identity :: "pyval \<Rightarrow> error + sortkey" where
  "identity (PStr s) = Inr (SKStr s)"
| "identity (PInt i) = Inr (SKInt i)"
| "identity (PBool b) = Inr (SKInt (if b then 1 else 0))"
| "identity _ = Inl Unmodelled"

text \<open>
  \<^verbatim>\<open>SimpleJSON.save_data\<close>, called without keyword arguments, on the file
  \<^verbatim>\<open>self.file\<close>.
\<close>

definition save_data :: "pylib \<Rightarrow> filesystem \<Rightarrow> string \<Rightarrow> pyval \<Rightarrow> sort_arg \<Rightarrow> error option \<times> filesystem" where
  "save_data lib fs self_file data sort_fn =
     (case sort_fn of
        NotCallable \<Rightarrow> (Some (TypeError None), fs)
      | NoSort \<Rightarrow> update_json_file lib fs self_file data
      | SortFn f \<Rightarrow>
          (case data of
             PDict d \<Rightarrow>
               (case sorted_py f (map (\<lambda>(k, _). PStr k) d) of
                  Inl e \<Rightarrow> (Some e, fs)
                | Inr key_list \<Rightarrow>
                    (case map_result
                            (\<lambda>key. case key of
                                      PStr k \<Rightarrow>
                                        (case dict_get d k of
                                           None \<Rightarrow> Inl (KeyError key)
                                         | Some v \<Rightarrow> Inr (k, v))
                                    | _ \<Rightarrow> Inl (KeyError key))
                            key_list of
                       Inl e \<Rightarrow> (Some e, fs)
                     | Inr pairs \<Rightarrow>
                         update_json_file lib fs self_file (PDict (dict_of_pairs pairs))))
           | PList xs \<Rightarrow>
               (case sorted_py f xs of
                  Inl e \<Rightarrow> (Some e, fs)
                | Inr sorted_data \<Rightarrow> update_json_file lib fs self_file (PList sorted_data))
           | _ \<Rightarrow> (Some (TypeError None), fs)))"

text \<open>\<^verbatim>\<open>SimpleJSON.load_data\<close> without \<^verbatim>\<open>use_pandas\<close>: a copy of what the file holds.\<close>

definition load_data :: "pylib \<Rightarrow> filesystem \<Rightarrow> string \<Rightarrow> error + pyval" where
  "load_data lib fs self_file =
     (case load_json_file lib fs self_file of
        Inl e \<Rightarrow> Inl e
      | Inr all_data \<Rightarrow>
          (case all_data of
             PDict d \<Rightarrow> Inr all_data
           | PList xs \<Rightarrow> Inr all_data
           | _ \<Rightarrow> Inl AttributeError))"

text \<open>
  A sample of the libraries for closed examples: \<^verbatim>\<open>parser.parse\<close> on two ISO
  strings, as \<^verbatim>\<open>dateutil\<close> reads them, and \<open>ValueError\<close> (its \<^verbatim>\<open>ParserError\<close>) on
  \<^verbatim>\<open>"x"\<close>; the sample answers nothing else.
\<close>

definition sample_lib :: pylib where
  "sample_lib =
     \<lparr> dateutil_parse =
         (\<lambda>r. if r = PStr ''2020-01-02'' then Inr (Datetime 2020 1 2 0 0 0 0)
              else if r = PStr ''2020-01-02T03:04:05'' then Inr (Datetime 2020 1 2 3 4 5 0)
              else if r = PStr ''x'' then Inl ValueError
              else Inl Unmodelled),
       pandas_read_json = (\<lambda>r. Inl Unmodelled) \<rparr>"

section \<open>Predicates on values and documents\<close>



fun distinct_keys :: "json \<Rightarrow> bool"
and distinct_keys_list :: "json list \<Rightarrow> bool"
and distinct_keys_pairs :: "(string \<times> json) list \<Rightarrow> bool"
where
  "distinct_keys (JArr xs) = distinct_keys_list xs"
| "distinct_keys (JObj ps) = (distinct (map fst ps) \<and> distinct_keys_pairs ps)"
| "distinct_keys _ = True"
| "distinct_keys_list [] = True"
| "distinct_keys_list (x # xs) = (distinct_keys x \<and> distinct_keys_list xs)"
| "distinct_keys_pairs [] = True"
| "distinct_keys_pairs ((k, x) # ps) = (distinct_keys x \<and> distinct_keys_pairs ps)"






section \<open>Auxiliary facts\<close>















lemma loads_list_member:
  "loads_list lib xs = Inr vs \<Longrightarrow> x \<in> set xs \<Longrightarrow> \<exists>v. loads_value lib x = Inr v"
  by (induction xs arbitrary: vs) (auto split: sum.splits)












lemma distinct_keys_pairs_member:
  "distinct_keys_pairs ps \<Longrightarrow> (k, x) \<in> set ps \<Longrightarrow> distinct_keys x"
  by (induction ps) auto













lemma str_int_error: "str_int i = Inl e \<Longrightarrow> e = ValueError"
  by (auto simp: str_int_def split: if_splits)

lemma serialize_timedelta_error:
  "serialize TimedeltaJSON (PTimedelta td) = Inl e \<Longrightarrow> e = ValueError"
  by (auto split: sum.splits dest: str_int_error)














section \<open>Properties\<close>

text \<open>
  C9. Parsing the empty string fails with \<open>ValueError\<close>: \<^verbatim>\<open>from_json_str\<close> tests
  \<^verbatim>\<open>not in_str\<close> before it calls the JSON engine.
\<close>

theorem parse_empty_ValueError:
  "from_json_str lib Empty = Inl ValueError"
  by (simp add: from_json_str_def)







text \<open>
  C1 (failing input). The datetime handler claims the type \<^verbatim>\<open>date\<close>, but its
  \<^verbatim>\<open>deserialize\<close> is \<^verbatim>\<open>dateutil.parser.parse\<close>, which returns a \<^verbatim>\<open>datetime\<close>: for
  every date \<open>d\<close>, whatever the parser does, deserializing the serialized date does
  not give \<open>d\<close> back. For \<^verbatim>\<open>date(2020, 1, 2)\<close> the text is \<^verbatim>\<open>"2020-01-02"\<close> and the
  result \<^verbatim>\<open>datetime(2020, 1, 2, 0, 0)\<close>, which Python does not hold equal to the
  date.
\<close>

theorem date_round_trip_gives_datetime:
  "serialize DatetimeJSON (PDate d) = Inr (isoformat_date d)
   \<and> deserialize lib DatetimeJSON (PStr (isoformat_date d)) \<noteq> Inr (PDate d)
   \<and> isoformat_date (Date 2020 1 2) = ''2020-01-02''
   \<and> deserialize sample_lib DatetimeJSON (PStr ''2020-01-02'')
       = Inr (PDatetime (Datetime 2020 1 2 0 0 0 0))"
proof -
  have 1: "deserialize lib DatetimeJSON (PStr (isoformat_date d)) \<noteq> Inr (PDate d)"
    by (simp split: sum.splits)
  have 2: "isoformat_date (Date 2020 1 2) = ''2020-01-02''"
    by code_simp
  have 3: "deserialize sample_lib DatetimeJSON (PStr ''2020-01-02'')
       = Inr (PDatetime (Datetime 2020 1 2 0 0 0 0))"
    by (simp add: sample_lib_def)
  from 1 2 3 show ?thesis by simp
qed

text \<open>
  C5 (failing input). \<^verbatim>\<open>save_data(["z", "a", "m"], sort_fn=identity)\<close> with no file
  yet: the list is sorted, then \<^verbatim>\<open>update_json_file\<close> calls
  \<^verbatim>\<open>file_data.update(["a", "m", "z"])\<close> on the empty mapping it loaded, which raises
  \<open>ValueError\<close> (an element of length 1 is not a key-value pair). Nothing is written.
\<close>

theorem save_list_of_strings_fails:
  "fst (save_data sample_lib Map.empty ''data.json''
          (PList [PStr ''z'', PStr ''a'', PStr ''m'']) (SortFn identity)) = Some ValueError
   \<and> snd (save_data sample_lib Map.empty ''data.json''
          (PList [PStr ''z'', PStr ''a'', PStr ''m'']) (SortFn identity)) ''data.json'' = None
   \<and> sorted_py identity [PStr ''z'', PStr ''a'', PStr ''m''] = Inr [PStr ''a'', PStr ''m'', PStr ''z'']"
proof -
  have s: "sorted_py identity [PStr ''z'', PStr ''a'', PStr ''m''] = Inr [PStr ''a'', PStr ''m'', PStr ''z'']"
    by code_simp
  have u: "dict_update_py (PDict []) (PList [PStr ''a'', PStr ''m'', PStr ''z'']) = Inl ValueError"
    by (simp add: dict_update_py_def update_pair_def)
  have "save_data sample_lib Map.empty ''data.json''
          (PList [PStr ''z'', PStr ''a'', PStr ''m'']) (SortFn identity) = (Some ValueError, Map.empty)"
    by (simp add: save_data_def s update_json_file_def load_json_file_def u)
  with s show ?thesis by simp
qed

text \<open>
  C6 (failing input). The decode hook looks only at the values of the mapping it
  is given. An envelope that is an element of a sequence, or the top-level mapping
  itself, is returned as it is, whatever its tag, although \<^verbatim>\<open>to_json_str\<close> writes
  such envelopes (here for a list holding a timedelta); the same envelope as the
  value of a key is decoded.
\<close>

theorem envelope_outside_mapping_value_not_decoded:
  "from_json_str lib (Wellformed (JArr [JObj [(''__type__'', JStr tag), (''repr'', JStr payload)]]))
     = Inr (PList [PDict [(''__type__'', PStr tag), (''repr'', PStr payload)]])
   \<and> from_json_str lib (Wellformed (JObj [(''__type__'', JStr tag), (''repr'', JStr payload)]))
     = Inr (PDict [(''__type__'', PStr tag), (''repr'', PStr payload)])
   \<and> to_json_str (PList [PTimedelta (Timedelta 1 2 3)])
     = Inr (Wellformed (JArr [JObj [(''__type__'', JStr ''timedelta''), (''repr'', JStr ''1,2,3'')]]))
   \<and> from_json_str lib (Wellformed (JObj [(''k'', JObj [(''__type__'', JStr ''timedelta''), (''repr'', JStr ''1,2,3'')])]))
     = Inr (PDict [(''k'', PTimedelta (Timedelta 1 2 3))])"
proof -
  have h: "json_deserial lib (PDict [(''__type__'', PStr tag), (''repr'', PStr payload)])
      = Inr (PDict [(''__type__'', PStr tag), (''repr'', PStr payload)])"
    by (simp add: json_deserial_def recover_value_def)
  have 1: "from_json_str lib (Wellformed (JArr [JObj [(''__type__'', JStr tag), (''repr'', JStr payload)]]))
     = Inr (PList [PDict [(''__type__'', PStr tag), (''repr'', PStr payload)]])"
    by (simp add: from_json_str_def dict_of_pairs_def dict_update_def h)
  have 2: "from_json_str lib (Wellformed (JObj [(''__type__'', JStr tag), (''repr'', JStr payload)]))
     = Inr (PDict [(''__type__'', PStr tag), (''repr'', PStr payload)])"
    by (simp add: from_json_str_def dict_of_pairs_def dict_update_def h)
  have 3: "to_json_str (PList [PTimedelta (Timedelta 1 2 3)])
     = Inr (Wellformed (JArr [JObj [(''__type__'', JStr ''timedelta''), (''repr'', JStr ''1,2,3'')]]))"
    by code_simp
  have d: "deserialize lib TimedeltaJSON (PStr ''1,2,3'') = Inr (PTimedelta (Timedelta 1 2 3))"
    by code_simp
  have 4: "from_json_str lib (Wellformed (JObj [(''k'', JObj [(''__type__'', JStr ''timedelta''), (''repr'', JStr ''1,2,3'')])]))
     = Inr (PDict [(''k'', PTimedelta (Timedelta 1 2 3))])"
    by (simp add: from_json_str_def dict_of_pairs_def dict_update_def h json_deserial_def
        recover_value_def dict_contains_def dict_pop_def lookup_serializer_def dict_get_def
        names_to_serializers_def d del: deserialize.simps)
  from 1 2 3 4 show ?thesis by simp
qed





















end
